theory Spec2Isabelle
  imports Main
begin

section \<open>JavaScript values and objects\<close>

text \<open>
  The activity log of the admin panel (components/admin-panel/sections/ActivityLog/index.js)
  reads the query parameters of the URL from \<open>router.query\<close>, derives the variables of the
  GraphQL query from them, and pushes a corrected URL when the loaded account does not
  support the selected activity type.

  A query parameter is a string; the component itself writes \<open>null\<close> into the objects it
  merges. A parameter that occurs several times in the URL, which the router delivers as
  an array, is not modelled. A JavaScript object with string keys is a map, a key that is
  not bound reads as \<open>undefined\<close>. Strings are lists of code units below 256.
\<close>

datatype jsval = JNull | JString string

type_synonym jsobject = "string \<rightharpoonup> jsval"

text \<open>\<open>!value\<close>: \<open>undefined\<close>, \<open>null\<close> and the empty string are falsy.\<close>

fun falsy :: "jsval option \<Rightarrow> bool" where
  "falsy None = True"
| "falsy (Some JNull) = True"
| "falsy (Some (JString s)) = (s = [])"

text \<open>The conversion to a string that \<open>parseInt\<close> applies to its argument.\<close>

fun ToString :: "jsval option \<Rightarrow> string" where
  "ToString None = ''undefined''"
| "ToString (Some JNull) = ''null''"
| "ToString (Some (JString s)) = s"

subsection \<open>lodash: omit, omitBy, isEmpty; object spread\<close>

definition omit :: "jsobject \<Rightarrow> string list \<Rightarrow> jsobject" where
  "omit object paths = (\<lambda>key. if key \<in> set paths then None else object key)"

definition omitBy :: "jsobject \<Rightarrow> (jsval \<Rightarrow> bool) \<Rightarrow> jsobject" where
  "omitBy object predicate =
     (\<lambda>key. case object key of
               None \<Rightarrow> None
             | Some v \<Rightarrow> if predicate v then None else Some v)"

definition isEmpty :: "jsobject \<Rightarrow> bool" where
  "isEmpty object = (dom object = {})"

text \<open>\<open>{ ...a, ...b }\<close>: the keys of \<open>b\<close> win.\<close>

definition spread :: "jsobject \<Rightarrow> jsobject \<Rightarrow> jsobject" where
  "spread a b = a ++ b"

subsection \<open>String.prototype.split with a one-character separator\<close>

fun split :: "string \<Rightarrow> char \<Rightarrow> string list" where
  "split [] sep = [[]]"
| "split (c # cs) sep =
     (if c = sep then [] # split cs sep
      else (case split cs sep of
              [] \<Rightarrow> [[c]]
            | w # ws \<Rightarrow> (c # w) # ws))"

subsection \<open>Numbers\<close>

text \<open>
  A JavaScript number is a double. The integers of magnitude up to \<open>2 ^ 53\<close> are doubles,
  and \<open>Integer\<close> holds one of them (both zeros are \<open>Integer 0\<close>). The double nearest to
  an integer of larger magnitude is not computed here: it is \<open>Huge\<close>, some double of
  magnitude at least \<open>2 ^ 53\<close>, possibly infinite, and negative when the flag is set.
\<close>

datatype number = NaN | Integer int | Huge bool

text \<open>The number value of a mathematical integer.\<close>

definition numberValue :: "int \<Rightarrow> number" where
  "numberValue x = (if \<bar>x\<bar> \<le> 2 ^ 53 then Integer x else Huge (x < 0))"

subsection \<open>parseInt without a radix\<close>

text \<open>
  ECMAScript's \<open>parseInt(string)\<close>: leading white space is dropped, one sign is read, a
  prefix \<open>0x\<close> or \<open>0X\<close> selects radix 16 (radix 10 otherwise), and the longest run of
  digits of the radix is the mathematical integer whose number value is returned; no
  digit gives \<open>NaN\<close>.
\<close>

definition isWhiteSpace :: "char \<Rightarrow> bool" where
  "isWhiteSpace c =
     (c \<in> {CHR 0x09, CHR 0x0A, CHR 0x0B, CHR 0x0C, CHR 0x0D, CHR 0x20, CHR 0xA0})"

definition digitValue :: "char \<Rightarrow> nat option" where
  "digitValue c =
     (let n = (of_char c :: nat) in
      if 48 \<le> n \<and> n \<le> 57 then Some (n - 48)
      else if 97 \<le> n \<and> n \<le> 122 then Some (n - 87)
      else if 65 \<le> n \<and> n \<le> 90 then Some (n - 55)
      else None)"

definition isRadixDigit :: "nat \<Rightarrow> char \<Rightarrow> bool" where
  "isRadixDigit R c = (case digitValue c of None \<Rightarrow> False | Some d \<Rightarrow> d < R)"

definition mathInt :: "nat \<Rightarrow> string \<Rightarrow> nat" where
  "mathInt R Z =
     foldl (\<lambda>acc c. acc * R + (case digitValue c of None \<Rightarrow> 0 | Some d \<Rightarrow> d)) 0 Z"

definition parseInt :: "jsval option \<Rightarrow> number" where
  "parseInt v =
     (let S = dropWhile isWhiteSpace (ToString v);
          sign = (case S of [] \<Rightarrow> 1 | c # _ \<Rightarrow> if c = CHR ''-'' then - 1 else (1::int));
          S1 = (case S of [] \<Rightarrow> S
                | c # rest \<Rightarrow> if c = CHR ''+'' \<or> c = CHR ''-'' then rest else S);
          stripPrefix = (case S1 of
                           a # b # _ \<Rightarrow> a = CHR ''0'' \<and> (b = CHR ''x'' \<or> b = CHR ''X'')
                         | _ \<Rightarrow> False);
          R = (if stripPrefix then 16 else 10);
          S2 = (if stripPrefix then drop 2 S1 else S1);
          Z = takeWhile (isRadixDigit R) S2
      in if Z = [] then NaN else numberValue (sign * int (mathInt R Z)))"

text \<open>\<open>number || 0\<close>: \<open>NaN\<close> and zero are falsy, every other number is kept.\<close>

definition orZero :: "number \<Rightarrow> number" where
  "orZero n =
     (case n of
        NaN \<Rightarrow> Integer 0
      | Integer k \<Rightarrow> if k = 0 then Integer 0 else Integer k
      | Huge negative \<Rightarrow> Huge negative)"

section \<open>The variables of the activity log query\<close>

definition ACTIVITY_LIMIT :: int where
  "ACTIVITY_LIMIT = 10"

record router =
  query :: jsobject
  asPath :: string

record accountReferenceInput =
  slug :: string

text \<open>
  \<open>filteredAccounts\<close> starts as the object \<open>{ slug: accountSlug }\<close> and becomes an array
  of such objects when the \<open>account\<close> parameter lists slugs.
\<close>

datatype filteredAccounts =
  OneAccount accountReferenceInput
| AccountList "accountReferenceInput list"

text \<open>A flag that was declared and never assigned is \<open>undefined\<close>: \<open>None\<close>.\<close>

record ('d, 't) queryVariables =
  accountSlug :: string
  dateFrom :: 'd
  dateTo :: 'd
  limit :: int
  offset :: number
  type :: 't
  account :: filteredAccounts
  includeChildrenAccounts :: "bool option"
  excludeParentAccount :: "bool option"
  includeHostedAccounts :: "bool option"

text \<open>
  \<open>parseDateInterval\<close> (lib/date-utils) and \<open>getActivityTypeFilterValuesFromKey\<close>
  (./ActivityTypeFilter) are imported from files that are not part of the sources at
  hand: they are parameters, the first returning the pair \<open>(from, to)\<close>.
\<close>

definition getQueryVariables ::
  "(jsval option \<Rightarrow> 'd \<times> 'd) \<Rightarrow> (jsval option \<Rightarrow> 't) \<Rightarrow> string \<Rightarrow> router
     \<Rightarrow> ('d, 't) queryVariables" where
  "getQueryVariables parseDateInterval getActivityTypeFilterValuesFromKey accSlug rtr =
     (let routerQuery = omit (query rtr) [''slug'', ''section''];
          offs = orZero (parseInt (routerQuery ''offset''));
          period = routerQuery ''period'';
          typ = routerQuery ''type'';
          acc = routerQuery ''account'';
          (dFrom, dTo) = parseDateInterval period;
          target = OneAccount \<lparr>slug = accSlug\<rparr>;
          (filtered, inclChildren, inclHosted, exclParent) =
            (if acc = Some (JString ''__CHILDREN_ACCOUNTS__'')
               then (target, Some True, None, Some True)
             else if acc = Some (JString ''__HOSTED_ACCOUNTS__'')
               then (target, None, Some True, None)
             else (case acc of
                     Some (JString s) \<Rightarrow>
                       if s \<noteq> []
                         then (AccountList (map (\<lambda>sl. \<lparr>slug = sl\<rparr>) (split s (CHR '',''))),
                               Some True, None, None)
                         else (target, None, None, None)
                   | _ \<Rightarrow> (target, None, None, None)))
      in \<lparr>accountSlug = accSlug,
          dateFrom = dFrom,
          dateTo = dTo,
          limit = ACTIVITY_LIMIT,
          offset = offs,
          type = getActivityTypeFilterValuesFromKey typ,
          account = filtered,
          includeChildrenAccounts = inclChildren,
          excludeParentAccount = exclParent,
          includeHostedAccounts = inclHosted\<rparr>)"

section \<open>Reconciling the type filter with the loaded account\<close>

text \<open>The fields of the account that the query \<open>AccountActivityLog\<close> selects.\<close>

record loadedAccount =
  accountId :: string
  accountName :: string
  accountSlugOf :: string
  legacyId :: int
  isHost :: bool
  accountType :: string
  childrenAccountsTotalCount :: "int option"

text \<open>
  \<open>isSupportedActivityTypeFilter\<close> is imported from ./ActivityTypeFilter, which is not
  part of the sources at hand: \<open>getChangesThatRequireUpdate\<close> takes it as a parameter.
\<close>

definition getChangesThatRequireUpdate ::
  "(loadedAccount \<Rightarrow> jsval option \<Rightarrow> bool) \<Rightarrow> loadedAccount option \<Rightarrow> jsobject
     \<Rightarrow> jsobject" where
  "getChangesThatRequireUpdate isSupported acc queryParams =
     (let changes = Map.empty in
      case acc of
        None \<Rightarrow> changes
      | Some a \<Rightarrow>
          if \<not> isSupported a (queryParams ''type'')
            then changes(''type'' \<mapsto> JNull)
            else changes)"

text \<open>
  Modelled from the spec: \<open>isSupportedActivityTypeFilter\<close> of ./ActivityTypeFilter, whose
  file is missing. The spec: the filter is cleared "if the currently selected type filter
  is not in the set of filters supported by the account's type/capabilities". So the
  check is membership of the value of \<open>type\<close> in the account's set of filter keys; a
  value that is no key (\<open>undefined\<close>, \<open>null\<close>) is in no such set. The set of each account
  is the parameter \<open>supportedFilters\<close>.
\<close>

definition isSupportedActivityTypeFilter ::
  "(loadedAccount \<Rightarrow> string set) \<Rightarrow> loadedAccount \<Rightarrow> jsval option \<Rightarrow> bool" where
  "isSupportedActivityTypeFilter supportedFilters acc v =
     (case v of
        Some (JString key) \<Rightarrow> key \<in> supportedFilters acc
      | _ \<Rightarrow> False)"

section \<open>The component\<close>

text \<open>
  What \<open>useQuery\<close> returns is the input of a render. Of the \<open>activities\<close> collection the
  component reads \<open>totalCount\<close> and \<open>nodes\<close>; either may be \<open>null\<close>.
\<close>

record 'a activityCollection =
  totalCount :: "int option"
  nodes :: "'a list option"

record 'a queryData =
  dataAccount :: "loadedAccount option"
  activities :: "'a activityCollection option"

record ('a, 'e) queryResult =
  data :: "'a queryData option"
  loading :: bool
  error :: "'e option"

text \<open>The argument of \<open>router.push\<close>.\<close>

record urlObject =
  pathname :: "string option"
  urlQuery :: jsobject

text \<open>
  What a render can do besides returning elements: push a URL, or call the \<open>refetch\<close>
  of the query result (which the component never takes out of it).
\<close>

datatype effect = RouterPush urlObject | QueryRefetch

definition handleUpdateFilters :: "router \<Rightarrow> jsobject \<Rightarrow> urlObject" where
  "handleUpdateFilters rtr queryParams =
     (let routerQuery = omit (query rtr) [''slug'', ''section''];
          path = (case split (asPath rtr) (CHR ''?'') of [] \<Rightarrow> None | p # _ \<Rightarrow> Some p)
      in \<lparr>pathname = path,
          urlQuery = omitBy (spread routerQuery queryParams) (\<lambda>v. falsy (Some v))\<rparr>)"

text \<open>
  The optional chains \<open>data?.account\<close>, \<open>data?.activities?.totalCount\<close> and
  \<open>data?.activities?.nodes\<close>.
\<close>

definition accountOf :: "'a queryData option \<Rightarrow> loadedAccount option" where
  "accountOf d = (case d of None \<Rightarrow> None | Some dt \<Rightarrow> dataAccount dt)"

definition activitiesOf :: "'a queryData option \<Rightarrow> 'a activityCollection option" where
  "activitiesOf d = (case d of None \<Rightarrow> None | Some dt \<Rightarrow> activities dt)"

definition totalCountOf :: "'a queryData option \<Rightarrow> int option" where
  "totalCountOf d = (case activitiesOf d of None \<Rightarrow> None | Some a \<Rightarrow> totalCount a)"

definition nodesOf :: "'a queryData option \<Rightarrow> 'a list option" where
  "nodesOf d = (case activitiesOf d of None \<Rightarrow> None | Some a \<Rightarrow> nodes a)"

text \<open>The body of the effect that resets the type: the URL it pushes, if any.\<close>

definition resetTypeEffect ::
  "(loadedAccount \<Rightarrow> jsval option \<Rightarrow> bool) \<Rightarrow> router \<Rightarrow> 'a queryData option
     \<Rightarrow> urlObject option" where
  "resetTypeEffect isSupported rtr d =
     (let routerQuery = omit (query rtr) [''slug'', ''section''];
          changesThatRequireUpdate =
            getChangesThatRequireUpdate isSupported (accountOf d) routerQuery
      in if \<not> isEmpty changesThatRequireUpdate
           then Some (handleUpdateFilters rtr (spread routerQuery changesThatRequireUpdate))
           else None)"

record activityFiltersProps =
  filters :: jsobject
  onChange :: "jsobject \<Rightarrow> urlObject"
  filtersAccount :: "loadedAccount option"

record paginationProps =
  pageOffset :: number
  pageTotal :: int
  pageLimit :: int
  ignoredQueryParams :: "string list"

text \<open>
  The element below the filters. The boxes of the list are one per node, in the order of
  the nodes; what a box shows is left to the node.
\<close>

datatype ('a, 'e) content =
  MessageBoxGraphqlError 'e
| LoadingPlaceholder
| MustBeAdminMessage
| NoActivityYetMessage
| ActivityLogContainer "'a list"

record ('a, 'e) rendered =
  activityFilters :: activityFiltersProps
  body :: "('a, 'e) content"
  pagination :: "paginationProps option"

definition ActivityLog ::
  "(loadedAccount \<Rightarrow> jsval option \<Rightarrow> bool) \<Rightarrow> router \<Rightarrow> ('a, 'e) queryResult
     \<Rightarrow> ('a, 'e) rendered \<times> effect list" where
  "ActivityLog isSupported rtr res =
     (let routerQuery = omit (query rtr) [''slug'', ''section''];
          offs = orZero (parseInt (routerQuery ''offset''));
          effects = (case resetTypeEffect isSupported rtr (data res) of
                       None \<Rightarrow> []
                     | Some url \<Rightarrow> [RouterPush url])
      in (\<lparr>activityFilters =
              \<lparr>filters = routerQuery,
               onChange = (\<lambda>queryParams.
                 handleUpdateFilters rtr (queryParams(''offset'' \<mapsto> JNull))),
               filtersAccount = accountOf (data res)\<rparr>,
           body =
             (case error res of
                Some e \<Rightarrow> MessageBoxGraphqlError e
              | None \<Rightarrow>
                  if loading res then LoadingPlaceholder
                  else (case nodesOf (data res) of
                          None \<Rightarrow> MustBeAdminMessage
                        | Some ns \<Rightarrow>
                            (case totalCountOf (data res) of
                               None \<Rightarrow> NoActivityYetMessage
                             | Some n \<Rightarrow>
                                 if n = 0 then NoActivityYetMessage
                                 else ActivityLogContainer ns))),
           pagination =
             (case totalCountOf (data res) of
                None \<Rightarrow> None
              | Some n \<Rightarrow>
                  if n > ACTIVITY_LIMIT
                    then Some \<lparr>pageOffset = offs, pageTotal = n, pageLimit = ACTIVITY_LIMIT,
                               ignoredQueryParams = [''slug'', ''section'']\<rparr>
                    else None)\<rparr>,
          effects))"

text \<open>
  Modelled from the spec: the \<open>Pagination\<close> component is missing from the sources. The
  spec: "fixed page size (10 items per page); total-count-driven page control", with 3
  pages for a total of 25 at limit 10. The number of pages is the total divided by the
  limit, rounded up.
\<close>

definition totalPages :: "paginationProps \<Rightarrow> int" where
  "totalPages p = (pageTotal p + pageLimit p - 1) div pageLimit p"

section \<open>Notions of the specification\<close>

text \<open>
  The query parameters a render works with: \<open>router.query\<close> without \<open>slug\<close> and
  \<open>section\<close>, which the source binds to \<open>routerQuery\<close>.
\<close>

abbreviation routerQuery :: "router \<Rightarrow> jsobject" where
  "routerQuery rtr \<equiv> omit (query rtr) [''slug'', ''section'']"

text \<open>A string of decimal digits and the number it denotes, most significant digit first.\<close>

definition isDecimalDigit :: "char \<Rightarrow> bool" where
  "isDecimalDigit c = (c \<in> set ''0123456789'')"

fun decimalValue :: "string \<Rightarrow> nat" where
  "decimalValue [] = 0"
| "decimalValue (c # cs) = (of_char c - 48) * 10 ^ length cs + decimalValue cs"

text \<open>The parameter starts, after white space, with a minus sign.\<close>

definition minusSigned :: "string \<Rightarrow> bool" where
  "minusSigned str =
     (case dropWhile isWhiteSpace str of [] \<Rightarrow> False | c # _ \<Rightarrow> c = CHR ''-'')"

text \<open>A number that is not below zero; \<open>NaN\<close> is none.\<close>

fun nonNegative :: "number \<Rightarrow> bool" where
  "nonNegative NaN = False"
| "nonNegative (Integer k) = (0 \<le> k)"
| "nonNegative (Huge negative) = (\<not> negative)"

text \<open>A comma-separated list of slugs.\<close>

fun commaSeparated :: "string list \<Rightarrow> string" where
  "commaSeparated [] = []"
| "commaSeparated [x] = x"
| "commaSeparated (x # y # ys) = x @ CHR '','' # commaSeparated (y # ys)"

subsection \<open>Inputs of the examples\<close>

text \<open>
  An account of type Individual that is not a host, and a table of supported filters in
  which the key \<open>HOST\<close> is for hosts only.
\<close>

definition individualAccount :: loadedAccount where
  "individualAccount =
     \<lparr>accountId = ''a1'', accountName = ''Jane'', accountSlugOf = ''jane'', legacyId = 1,
      isHost = False, accountType = ''INDIVIDUAL'', childrenAccountsTotalCount = None\<rparr>"

definition hostOnlyFilters :: "loadedAccount \<Rightarrow> string set" where
  "hostOnlyFilters acc = (if isHost acc then {''HOST'', ''EXPENSES''} else {''EXPENSES''})"


definition janeRouter :: "jsobject \<Rightarrow> router" where
  "janeRouter params =
     \<lparr>query = [''slug'' \<mapsto> JString ''jane'', ''section'' \<mapsto> JString ''activity-log''] ++ params,
      asPath = ''/jane/admin/activity-log''\<rparr>"

definition loadedResult :: "int option \<Rightarrow> (nat list) option \<Rightarrow> (nat, string) queryResult" where
  "loadedResult count ns =
     \<lparr>data = Some \<lparr>dataAccount = Some individualAccount,
                   activities = Some \<lparr>totalCount = count, nodes = ns\<rparr>\<rparr>,
      loading = False, error = None\<rparr>"

definition loadingResult :: "(nat, string) queryResult" where
  "loadingResult = \<lparr>data = None, loading = True, error = None\<rparr>"

section \<open>Properties\<close>

subsection \<open>What a render pushes\<close>

lemma ActivityLog_effects:
  "snd (ActivityLog isSupported rtr res) =
     (case resetTypeEffect isSupported rtr (data res) of
        None \<Rightarrow> [] | Some url \<Rightarrow> [RouterPush url])"
  by (simp add: ActivityLog_def Let_def)

lemma resetTypeEffect_None:
  "accountOf d = None \<Longrightarrow> resetTypeEffect isSupported rtr d = None"
  by (simp add: resetTypeEffect_def getChangesThatRequireUpdate_def isEmpty_def)

lemma resetTypeEffect_Some:
  "accountOf d = Some acc \<Longrightarrow>
   resetTypeEffect isSupported rtr d =
     (if isSupported acc (routerQuery rtr ''type'') then None
      else Some (handleUpdateFilters rtr (spread (routerQuery rtr) [''type'' \<mapsto> JNull])))"
  by (simp add: resetTypeEffect_def getChangesThatRequireUpdate_def isEmpty_def)

lemma urlQuery_handleUpdateFilters:
  "urlQuery (handleUpdateFilters rtr queryParams) key =
     (if falsy ((spread (routerQuery rtr) queryParams) key) then None
      else (spread (routerQuery rtr) queryParams) key)"
  by (cases "(spread (routerQuery rtr) queryParams) key")
     (simp_all add: handleUpdateFilters_def Let_def omitBy_def)

lemma accountOf_loadedResult:
  "accountOf (data (loadedResult count ns)) = Some individualAccount"
  by (simp add: loadedResult_def accountOf_def)

lemma routerQuery_janeRouter:
  "routerQuery (janeRouter params) key =
     (if key = ''slug'' \<or> key = ''section'' then None else params key)"
  by (simp add: janeRouter_def omit_def map_add_def split: option.splits)

text \<open>
  C9: when the loaded account is absent (the query is loading, or failed, or found no
  account), the change set is empty whatever the query parameters are, and the render
  pushes no URL.
\<close>

theorem no_account_no_navigation:
  "accountOf (data res) = None \<Longrightarrow>
     getChangesThatRequireUpdate isSupported (accountOf (data res)) queryParams = Map.empty
     \<and> resetTypeEffect isSupported rtr (data res) = None
     \<and> snd (ActivityLog isSupported rtr res) = []"
  by (simp add: getChangesThatRequireUpdate_def resetTypeEffect_None ActivityLog_effects)

text \<open>The case of a query that is still loading, with a type filter that nothing supports.\<close>

theorem no_account_no_navigation_witness:
  "accountOf (data loadingResult) = None
   \<and> getChangesThatRequireUpdate (\<lambda>_ _. False) (accountOf (data loadingResult))
        [''type'' \<mapsto> JString ''HOST''] = Map.empty
   \<and> snd (ActivityLog (\<lambda>_ _. False) (janeRouter [''type'' \<mapsto> JString ''HOST''])
        loadingResult) = []"
proof -
  have h: "accountOf (data loadingResult) = None"
    by (simp add: accountOf_def loadingResult_def)
  from no_account_no_navigation [OF h] show ?thesis using h by blast
qed

text \<open>
  C1: with a loaded account, when the account does not support the selected \<open>type\<close>, the
  change set clears \<open>type\<close> and the render pushes one URL, whose query is the query
  parameters merged with that change and stripped of every falsy value: \<open>type\<close> is gone,
  and every other key keeps its value unless that value is falsy. When the account
  supports the selected \<open>type\<close>, the change set is empty and nothing is pushed.
\<close>

theorem reconciliation_of_loaded_account:
  assumes "accountOf (data res) = Some acc"
  shows "(\<not> isSupported acc (routerQuery rtr ''type'') \<longrightarrow>
            getChangesThatRequireUpdate isSupported (accountOf (data res)) (routerQuery rtr)
              = [''type'' \<mapsto> JNull]
          \<and> (\<exists>url. snd (ActivityLog isSupported rtr res) = [RouterPush url]
               \<and> urlQuery url =
                   omitBy (spread (routerQuery rtr) [''type'' \<mapsto> JNull]) (\<lambda>v. falsy (Some v))
               \<and> (\<forall>key. urlQuery url key =
                     (if key = ''type'' \<or> falsy (routerQuery rtr key) then None
                      else routerQuery rtr key))))
       \<and> (isSupported acc (routerQuery rtr ''type'') \<longrightarrow>
            getChangesThatRequireUpdate isSupported (accountOf (data res)) (routerQuery rtr)
              = Map.empty
          \<and> snd (ActivityLog isSupported rtr res) = [])"
proof -
  let ?rq = "routerQuery rtr"
  let ?url = "handleUpdateFilters rtr (spread ?rq [''type'' \<mapsto> JNull])"
  have twice: "spread ?rq (spread ?rq [''type'' \<mapsto> JNull]) = spread ?rq [''type'' \<mapsto> JNull]"
    by (rule ext) (simp add: spread_def map_add_def split: option.splits)
  have q: "urlQuery ?url = omitBy (spread ?rq [''type'' \<mapsto> JNull]) (\<lambda>v. falsy (Some v))"
    by (simp add: handleUpdateFilters_def Let_def twice)
  have pt: "urlQuery ?url key = (if key = ''type'' \<or> falsy (?rq key) then None else ?rq key)"
    for key
    by (simp add: urlQuery_handleUpdateFilters twice) (simp add: spread_def)
  show ?thesis
    using assms q pt
    by (simp add: getChangesThatRequireUpdate_def ActivityLog_effects resetTypeEffect_Some)
qed

text \<open>
  The Individual account with the host-only filter selected, next to a period and an
  empty offset; and the same account with a filter it supports.
\<close>

theorem reconciliation_of_loaded_account_witness:
  "accountOf (data (loadedResult (Some 3) (Some [1, 2, 3]))) = Some individualAccount
   \<and> \<not> isSupportedActivityTypeFilter hostOnlyFilters individualAccount
         (routerQuery (janeRouter [''type'' \<mapsto> JString ''HOST'', ''period'' \<mapsto> JString ''2022'',
            ''offset'' \<mapsto> JString []]) ''type'')
   \<and> (\<exists>url. snd (ActivityLog (isSupportedActivityTypeFilter hostOnlyFilters)
                (janeRouter [''type'' \<mapsto> JString ''HOST'', ''period'' \<mapsto> JString ''2022'',
                   ''offset'' \<mapsto> JString []])
                (loadedResult (Some 3) (Some [1, 2, 3]))) = [RouterPush url]
          \<and> urlQuery url ''type'' = None
          \<and> urlQuery url ''period'' = Some (JString ''2022'')
          \<and> urlQuery url ''offset'' = None
          \<and> urlQuery url ''slug'' = None)
   \<and> isSupportedActivityTypeFilter hostOnlyFilters individualAccount
         (routerQuery (janeRouter [''type'' \<mapsto> JString ''EXPENSES'']) ''type'')
   \<and> snd (ActivityLog (isSupportedActivityTypeFilter hostOnlyFilters)
            (janeRouter [''type'' \<mapsto> JString ''EXPENSES''])
            (loadedResult (Some 3) (Some [1, 2, 3]))) = []"
proof -
  let ?sup = "isSupportedActivityTypeFilter hostOnlyFilters"
  let ?res = "loadedResult (Some 3) (Some [1, 2, 3])"
  let ?host = "janeRouter [''type'' \<mapsto> JString ''HOST'', ''period'' \<mapsto> JString ''2022'',
                 ''offset'' \<mapsto> JString []]"
  let ?expenses = "janeRouter [''type'' \<mapsto> JString ''EXPENSES'']"
  have h: "accountOf (data ?res) = Some individualAccount"
    by (rule accountOf_loadedResult)
  have no: "\<not> ?sup individualAccount (routerQuery ?host ''type'')"
    by (simp add: routerQuery_janeRouter isSupportedActivityTypeFilter_def hostOnlyFilters_def
          individualAccount_def)
  have yes: "?sup individualAccount (routerQuery ?expenses ''type'')"
    by (simp add: routerQuery_janeRouter isSupportedActivityTypeFilter_def hostOnlyFilters_def
          individualAccount_def)
  note inst = reconciliation_of_loaded_account [OF h, where isSupported = ?sup]
  from inst [of ?host] no obtain url
    where push: "snd (ActivityLog ?sup ?host ?res) = [RouterPush url]"
      and keys: "\<forall>key. urlQuery url key =
                   (if key = ''type'' \<or> falsy (routerQuery ?host key) then None
                    else routerQuery ?host key)"
    by blast
  have "urlQuery url ''type'' = None" "urlQuery url ''period'' = Some (JString ''2022'')"
       "urlQuery url ''offset'' = None" "urlQuery url ''slug'' = None"
    by (simp_all add: keys routerQuery_janeRouter)
  moreover from inst [of ?expenses] yes have "snd (ActivityLog ?sup ?expenses ?res) = []"
    by blast
  ultimately show ?thesis
    using h no yes push by blast
qed

lemma query_janeRouter:
  "key \<noteq> ''slug'' \<Longrightarrow> key \<noteq> ''section'' \<Longrightarrow> query (janeRouter params) key = params key"
  by (simp add: janeRouter_def map_add_def split: option.splits)












subsection \<open>The offset\<close>

lemma decimal_digit_facts:
  assumes "isDecimalDigit c"
  shows "digitValue c = Some (of_char c - 48)" and "isRadixDigit 10 c" and "\<not> isWhiteSpace c"
    and "c \<noteq> CHR ''+''" and "c \<noteq> CHR ''-''" and "c \<noteq> CHR ''x''" and "c \<noteq> CHR ''X''"
  using assms
  by (auto simp: isDecimalDigit_def digitValue_def isRadixDigit_def isWhiteSpace_def)

lemma foldl_decimal:
  "\<forall>c\<in>set ds. isDecimalDigit c \<Longrightarrow>
   foldl (\<lambda>acc c. acc * 10 + (case digitValue c of None \<Rightarrow> 0 | Some d \<Rightarrow> d)) a ds
     = a * 10 ^ length ds + decimalValue ds"
  by (induction ds arbitrary: a) (simp_all add: decimal_digit_facts(1) algebra_simps)

lemma mathInt_decimal:
  "\<forall>c\<in>set ds. isDecimalDigit c \<Longrightarrow> mathInt 10 ds = decimalValue ds"
  by (simp add: mathInt_def foldl_decimal)

lemma parseInt_decimal:
  assumes "ds \<noteq> []" and "\<forall>c\<in>set ds. isDecimalDigit c"
  shows "parseInt (Some (JString ds)) = numberValue (int (decimalValue ds))"
proof -
  from assms obtain c cs where ds: "ds = c # cs" by (cases ds) auto
  with assms have c: "isDecimalDigit c" by simp
  have ws: "dropWhile isWhiteSpace ds = ds"
    using c by (simp add: ds decimal_digit_facts(3))
  have nopre: "(case ds of a # b # _ \<Rightarrow> a = CHR ''0'' \<and> (b = CHR ''x'' \<or> b = CHR ''X'')
                | _ \<Rightarrow> False) = False"
    using assms(2) by (auto simp: ds decimal_digit_facts split: list.splits)
  have tw: "takeWhile (isRadixDigit 10) ds = ds"
    using assms(2) by (simp add: takeWhile_eq_all_conv decimal_digit_facts(2))
  have sg: "(case ds of [] \<Rightarrow> 1 | c # _ \<Rightarrow> if c = CHR ''-'' then - 1 else (1::int)) = 1"
    using c by (simp add: ds decimal_digit_facts)
  have s1: "(case ds of [] \<Rightarrow> ds
             | c # rest \<Rightarrow> if c = CHR ''+'' \<or> c = CHR ''-'' then rest else ds) = ds"
    using c by (simp add: ds decimal_digit_facts)
  show ?thesis
    unfolding parseInt_def Let_def ToString.simps ws sg s1 nopre
    using assms(1) by (simp add: tw mathInt_decimal [OF assms(2)])
qed

lemma orZero_numberValue_nat: "orZero (numberValue (int n)) = numberValue (int n)"
  by (simp add: orZero_def numberValue_def)

lemma parseInt_nonneg:
  assumes "\<not> minusSigned str"
  shows "nonNegative (orZero (parseInt (Some (JString str))))"
proof -
  have sg: "(case dropWhile isWhiteSpace str of [] \<Rightarrow> 1
             | c # _ \<Rightarrow> if c = CHR ''-'' then - 1 else (1::int)) = 1"
  proof (cases "dropWhile isWhiteSpace str")
    case Nil
    then show ?thesis by (simp only: list.case)
  next
    case (Cons c rest)
    with assms have "c \<noteq> CHR ''-''" by (simp add: minusSigned_def)
    with Cons show ?thesis by simp
  qed
  have "nonNegative (orZero (numberValue (int n)))" for n
    by (simp add: orZero_numberValue_nat) (simp add: numberValue_def)
  then show ?thesis
    unfolding parseInt_def Let_def ToString.simps sg
    by (simp add: orZero_def)
qed

lemma offset_getQueryVariables:
  "offset (getQueryVariables pdi gat accSlug rtr) = orZero (parseInt (query rtr ''offset''))"
  by (simp add: getQueryVariables_def Let_def omit_def split: prod.splits)

lemma parseInt_examples:
  "parseInt (Some (JString ''abc'')) = NaN"
  "parseInt (Some (JString ''20'')) = Integer 20"
  "parseInt None = NaN"
  "parseInt (Some (JString [])) = NaN"
  "parseInt (Some (JString ''-5'')) = Integer (- 5)"
  "parseInt (Some (JString ''12px'')) = Integer 12"
  by (simp_all add: parseInt_def isWhiteSpace_def isRadixDigit_def digitValue_def mathInt_def
        numberValue_def)

text \<open>
  C3 as the code has it: the derived \<open>offset\<close> is what \<open>parseInt\<close> reads from the
  \<open>offset\<close> parameter, and 0 when \<open>parseInt\<close> reads no number. So it is 0 for an absent
  or empty parameter and for \<open>abc\<close>, and it is 20 for \<open>20\<close>. For a non-empty string of
  decimal digits that denotes a number up to \<open>2 ^ 53\<close> it is that number; for one that
  denotes more it is a double of at least \<open>2 ^ 53\<close> that is left open. It is not below
  zero whenever the parameter does not start, after white space, with a minus sign.
\<close>

theorem derived_offset:
  "offset (getQueryVariables pdi gat accSlug rtr) = orZero (parseInt (query rtr ''offset''))
   \<and> (query rtr ''offset'' = None \<longrightarrow>
        offset (getQueryVariables pdi gat accSlug rtr) = Integer 0)
   \<and> (query rtr ''offset'' = Some (JString []) \<longrightarrow>
        offset (getQueryVariables pdi gat accSlug rtr) = Integer 0)
   \<and> (parseInt (query rtr ''offset'') = NaN \<longrightarrow>
        offset (getQueryVariables pdi gat accSlug rtr) = Integer 0)
   \<and> (query rtr ''offset'' = Some (JString ''abc'') \<longrightarrow>
        offset (getQueryVariables pdi gat accSlug rtr) = Integer 0)
   \<and> (query rtr ''offset'' = Some (JString ''20'') \<longrightarrow>
        offset (getQueryVariables pdi gat accSlug rtr) = Integer 20)
   \<and> (\<forall>ds. query rtr ''offset'' = Some (JString ds) \<and> ds \<noteq> []
          \<and> (\<forall>c\<in>set ds. isDecimalDigit c) \<and> decimalValue ds \<le> 2 ^ 53 \<longrightarrow>
        offset (getQueryVariables pdi gat accSlug rtr) = Integer (int (decimalValue ds)))
   \<and> (\<forall>ds. query rtr ''offset'' = Some (JString ds) \<and> ds \<noteq> []
          \<and> (\<forall>c\<in>set ds. isDecimalDigit c) \<and> 2 ^ 53 < decimalValue ds \<longrightarrow>
        offset (getQueryVariables pdi gat accSlug rtr) = Huge False)
   \<and> (\<forall>str. query rtr ''offset'' = Some (JString str) \<and> \<not> minusSigned str \<longrightarrow>
        nonNegative (offset (getQueryVariables pdi gat accSlug rtr)))"
proof -
  have small: "orZero (parseInt (Some (JString ds))) = Integer (int (decimalValue ds))"
    if "ds \<noteq> []" "\<forall>c\<in>set ds. isDecimalDigit c" "decimalValue ds \<le> 2 ^ 53" for ds
  proof -
    from that(3) have "int (decimalValue ds) \<le> 2 ^ 53"
      by (metis of_nat_le_iff of_nat_numeral of_nat_power)
    then have "numberValue (int (decimalValue ds)) = Integer (int (decimalValue ds))"
      by (simp add: numberValue_def)
    with that(1,2) show ?thesis
      by (simp add: parseInt_decimal orZero_def)
  qed
  have large: "orZero (parseInt (Some (JString ds))) = Huge False"
    if "ds \<noteq> []" "\<forall>c\<in>set ds. isDecimalDigit c" "2 ^ 53 < decimalValue ds" for ds
  proof -
    from that(3) have "2 ^ 53 < int (decimalValue ds)"
      by (metis of_nat_less_iff of_nat_numeral of_nat_power)
    then have "numberValue (int (decimalValue ds)) = Huge False"
      by (simp add: numberValue_def)
    with that(1,2) show ?thesis
      by (simp add: parseInt_decimal orZero_def)
  qed
  show ?thesis
    unfolding offset_getQueryVariables
    using parseInt_examples(1-4) small large parseInt_nonneg
    by (auto simp: orZero_def)
qed

text \<open>
  The parameters \<open>20\<close>, \<open>abc\<close>, the empty string and no parameter; the digits \<open>120\<close>, and
  the digits of \<open>2 ^ 53 + 1\<close>; and \<open>+7\<close>, which has a sign that is not a minus.
\<close>

theorem derived_offset_witness:
  "offset (getQueryVariables (\<lambda>_. ((), ())) (\<lambda>_. ()) ''jane''
      (janeRouter [''offset'' \<mapsto> JString ''20''])) = Integer 20
   \<and> offset (getQueryVariables (\<lambda>_. ((), ())) (\<lambda>_. ()) ''jane''
      (janeRouter [''offset'' \<mapsto> JString ''abc''])) = Integer 0
   \<and> parseInt (query (janeRouter [''offset'' \<mapsto> JString ''abc'']) ''offset'') = NaN
   \<and> offset (getQueryVariables (\<lambda>_. ((), ())) (\<lambda>_. ()) ''jane''
      (janeRouter [''offset'' \<mapsto> JString []])) = Integer 0
   \<and> offset (getQueryVariables (\<lambda>_. ((), ())) (\<lambda>_. ()) ''jane'' (janeRouter Map.empty))
       = Integer 0
   \<and> offset (getQueryVariables (\<lambda>_. ((), ())) (\<lambda>_. ()) ''jane''
      (janeRouter [''offset'' \<mapsto> JString ''120''])) = Integer 120
   \<and> offset (getQueryVariables (\<lambda>_. ((), ())) (\<lambda>_. ()) ''jane''
      (janeRouter [''offset'' \<mapsto> JString ''9007199254740993''])) = Huge False
   \<and> \<not> minusSigned ''+7''
   \<and> nonNegative (offset (getQueryVariables (\<lambda>_. ((), ())) (\<lambda>_. ()) ''jane''
      (janeRouter [''offset'' \<mapsto> JString ''+7''])))"
proof -
  note inst = derived_offset [where pdi = "\<lambda>_. ((), ())" and gat = "\<lambda>_. ()" and accSlug = "''jane''"]
  have digits: "\<forall>c\<in>set ''120''. isDecimalDigit c"
    "\<forall>c\<in>set ''9007199254740993''. isDecimalDigit c"
    by (simp_all add: isDecimalDigit_def)
  have dv: "decimalValue ''120'' = 120"
    by simp
  have plus: "\<not> minusSigned ''+7''"
    by (simp add: minusSigned_def isWhiteSpace_def)
  have nan: "parseInt (query (janeRouter [''offset'' \<mapsto> JString ''abc'']) ''offset'') = NaN"
    by (simp add: query_janeRouter parseInt_examples)
  have "query (janeRouter [''offset'' \<mapsto> JString ''20'']) ''offset'' = Some (JString ''20'')"
    by (simp add: query_janeRouter)
  with inst [where rtr = "janeRouter [''offset'' \<mapsto> JString ''20'']"]
  have a: "offset (getQueryVariables (\<lambda>_. ((), ())) (\<lambda>_. ()) ''jane''
      (janeRouter [''offset'' \<mapsto> JString ''20''])) = Integer 20"
    by blast
  from inst [where rtr = "janeRouter [''offset'' \<mapsto> JString ''abc'']"] nan
  have b: "offset (getQueryVariables (\<lambda>_. ((), ())) (\<lambda>_. ()) ''jane''
      (janeRouter [''offset'' \<mapsto> JString ''abc''])) = Integer 0"
    by blast
  have "query (janeRouter [''offset'' \<mapsto> JString []]) ''offset'' = Some (JString [])"
    by (simp add: query_janeRouter)
  with inst [where rtr = "janeRouter [''offset'' \<mapsto> JString []]"]
  have c: "offset (getQueryVariables (\<lambda>_. ((), ())) (\<lambda>_. ()) ''jane''
      (janeRouter [''offset'' \<mapsto> JString []])) = Integer 0"
    by blast
  have "query (janeRouter Map.empty) ''offset'' = None"
    by (simp add: query_janeRouter)
  with inst [where rtr = "janeRouter Map.empty"]
  have d: "offset (getQueryVariables (\<lambda>_. ((), ())) (\<lambda>_. ()) ''jane'' (janeRouter Map.empty))
             = Integer 0"
    by blast
  have "query (janeRouter [''offset'' \<mapsto> JString ''120'']) ''offset'' = Some (JString ''120'')"
    "decimalValue ''120'' \<le> 2 ^ 53"
    by (simp_all add: query_janeRouter)
  with inst [where rtr = "janeRouter [''offset'' \<mapsto> JString ''120'']"] digits(1)
  have "offset (getQueryVariables (\<lambda>_. ((), ())) (\<lambda>_. ()) ''jane''
      (janeRouter [''offset'' \<mapsto> JString ''120''])) = Integer (int (decimalValue ''120''))"
    by blast
  then have e: "offset (getQueryVariables (\<lambda>_. ((), ())) (\<lambda>_. ()) ''jane''
      (janeRouter [''offset'' \<mapsto> JString ''120''])) = Integer 120"
    by (simp only: dv) simp
  have "query (janeRouter [''offset'' \<mapsto> JString ''9007199254740993'']) ''offset''
          = Some (JString ''9007199254740993'')"
    "2 ^ 53 < decimalValue ''9007199254740993''"
    by (simp_all add: query_janeRouter)
  with inst [where rtr = "janeRouter [''offset'' \<mapsto> JString ''9007199254740993'']"] digits(2)
  have g: "offset (getQueryVariables (\<lambda>_. ((), ())) (\<lambda>_. ()) ''jane''
      (janeRouter [''offset'' \<mapsto> JString ''9007199254740993''])) = Huge False"
    by blast
  have "query (janeRouter [''offset'' \<mapsto> JString ''+7'']) ''offset'' = Some (JString ''+7'')"
    by (simp add: query_janeRouter)
  with inst [where rtr = "janeRouter [''offset'' \<mapsto> JString ''+7'']"] plus
  have f: "nonNegative (offset (getQueryVariables (\<lambda>_. ((), ())) (\<lambda>_. ()) ''jane''
      (janeRouter [''offset'' \<mapsto> JString ''+7''])))"
    by blast
  from a b nan c d e g plus f show ?thesis by blast
qed

text \<open>
  The parameter \<open>-5\<close> gives the offset -5, which is below zero; and the parameter
  \<open>12px\<close>, which is no string of digits, gives 12 and not 0.
\<close>

theorem offset_counterexample:
  "offset (getQueryVariables (\<lambda>_. ((), ())) (\<lambda>_. ()) ''jane''
      (janeRouter [''offset'' \<mapsto> JString ''-5''])) = Integer (- 5)
   \<and> \<not> nonNegative (offset (getQueryVariables (\<lambda>_. ((), ())) (\<lambda>_. ()) ''jane''
      (janeRouter [''offset'' \<mapsto> JString ''-5''])))
   \<and> \<not> isDecimalDigit (CHR ''p'')
   \<and> offset (getQueryVariables (\<lambda>_. ((), ())) (\<lambda>_. ()) ''jane''
      (janeRouter [''offset'' \<mapsto> JString ''12px''])) = Integer 12"
  by (simp add: offset_getQueryVariables query_janeRouter parseInt_examples orZero_def
        isDecimalDigit_def)

subsection \<open>The account selector\<close>

lemma split_not_Nil: "split s sep \<noteq> []"
  by (induction s) (auto split: list.splits)

lemma split_no_separator: "sep \<notin> set x \<Longrightarrow> split x sep = [x]"
  by (induction x) auto

lemma split_append: "sep \<notin> set x \<Longrightarrow> split (x @ sep # rest) sep = x # split rest sep"
  by (induction x) auto

lemma split_commaSeparated:
  "slugs \<noteq> [] \<Longrightarrow> \<forall>x\<in>set slugs. CHR '','' \<notin> set x \<Longrightarrow>
   split (commaSeparated slugs) (CHR '','') = slugs"
  by (induction slugs rule: commaSeparated.induct) (simp_all add: split_no_separator split_append)

lemma commaSeparated_split: "commaSeparated (split s (CHR '','')) = s"
proof (induction s)
  case Nil
  show ?case by simp
next
  case (Cons c cs)
  show ?case
  proof (cases "c = CHR '',''")
    case True
    with Cons split_not_Nil [of cs "CHR '',''"] show ?thesis
      by (cases "split cs (CHR '','')") auto
  next
    case False
    with Cons split_not_Nil [of cs "CHR '',''"] show ?thesis
      by (cases "split cs (CHR '','')"; cases "tl (split cs (CHR '',''))") auto
  qed
qed

lemma split_pieces: "x \<in> set (split s sep) \<Longrightarrow> sep \<notin> set x"
  by (induction s arbitrary: x) (auto split: if_splits list.splits)

lemma account_flags:
  "includeChildrenAccounts (getQueryVariables pdi gat accSlug rtr) =
     (if falsy (query rtr ''account'') \<or> query rtr ''account'' = Some (JString ''__HOSTED_ACCOUNTS__'')
      then None else Some True)"
  "excludeParentAccount (getQueryVariables pdi gat accSlug rtr) =
     (if query rtr ''account'' = Some (JString ''__CHILDREN_ACCOUNTS__'') then Some True else None)"
  "includeHostedAccounts (getQueryVariables pdi gat accSlug rtr) =
     (if query rtr ''account'' = Some (JString ''__HOSTED_ACCOUNTS__'') then Some True else None)"
  by (auto simp: getQueryVariables_def Let_def omit_def split: prod.splits option.splits jsval.splits)

lemma account_variable:
  "account (getQueryVariables pdi gat accSlug rtr) =
     (case query rtr ''account'' of
        Some (JString s) \<Rightarrow>
          if s = [] \<or> s = ''__CHILDREN_ACCOUNTS__'' \<or> s = ''__HOSTED_ACCOUNTS__''
            then OneAccount \<lparr>slug = accSlug\<rparr>
            else AccountList (map (\<lambda>sl. \<lparr>slug = sl\<rparr>) (split s (CHR '','')))
      | _ \<Rightarrow> OneAccount \<lparr>slug = accSlug\<rparr>)"
  by (auto simp: getQueryVariables_def Let_def omit_def split: prod.splits option.splits jsval.splits)

text \<open>
  C4: when the \<open>account\<close> parameter is \<open>__CHILDREN_ACCOUNTS__\<close>, the variables have
  \<open>includeChildrenAccounts = true\<close> and \<open>excludeParentAccount = true\<close>, and
  \<open>includeHostedAccounts\<close> stays undefined.
\<close>

theorem children_accounts_sentinel:
  "query rtr ''account'' = Some (JString ''__CHILDREN_ACCOUNTS__'') \<Longrightarrow>
     includeChildrenAccounts (getQueryVariables pdi gat accSlug rtr) = Some True
   \<and> excludeParentAccount (getQueryVariables pdi gat accSlug rtr) = Some True
   \<and> includeHostedAccounts (getQueryVariables pdi gat accSlug rtr) = None"
  by (simp add: account_flags)

theorem children_accounts_sentinel_witness:
  "query (janeRouter [''account'' \<mapsto> JString ''__CHILDREN_ACCOUNTS__'']) ''account''
     = Some (JString ''__CHILDREN_ACCOUNTS__'')
   \<and> includeChildrenAccounts (getQueryVariables (\<lambda>_. ((), ())) (\<lambda>_. ()) ''jane''
        (janeRouter [''account'' \<mapsto> JString ''__CHILDREN_ACCOUNTS__''])) = Some True
   \<and> excludeParentAccount (getQueryVariables (\<lambda>_. ((), ())) (\<lambda>_. ()) ''jane''
        (janeRouter [''account'' \<mapsto> JString ''__CHILDREN_ACCOUNTS__''])) = Some True
   \<and> includeHostedAccounts (getQueryVariables (\<lambda>_. ((), ())) (\<lambda>_. ()) ''jane''
        (janeRouter [''account'' \<mapsto> JString ''__CHILDREN_ACCOUNTS__''])) = None"
proof -
  have h: "query (janeRouter [''account'' \<mapsto> JString ''__CHILDREN_ACCOUNTS__'']) ''account''
             = Some (JString ''__CHILDREN_ACCOUNTS__'')"
    by (simp add: query_janeRouter)
  from children_accounts_sentinel [OF h] h show ?thesis by blast
qed

text \<open>
  C5: when the \<open>account\<close> parameter is \<open>__HOSTED_ACCOUNTS__\<close>, the variables have
  \<open>includeHostedAccounts = true\<close>, the two other flags stay undefined, and the \<open>account\<close>
  variable is the one object \<open>{ slug: accountSlug }\<close>.
\<close>

theorem hosted_accounts_sentinel:
  "query rtr ''account'' = Some (JString ''__HOSTED_ACCOUNTS__'') \<Longrightarrow>
     includeHostedAccounts (getQueryVariables pdi gat accSlug rtr) = Some True
   \<and> includeChildrenAccounts (getQueryVariables pdi gat accSlug rtr) = None
   \<and> excludeParentAccount (getQueryVariables pdi gat accSlug rtr) = None
   \<and> account (getQueryVariables pdi gat accSlug rtr) = OneAccount \<lparr>slug = accSlug\<rparr>"
  by (simp add: account_flags account_variable)

theorem hosted_accounts_sentinel_witness:
  "query (janeRouter [''account'' \<mapsto> JString ''__HOSTED_ACCOUNTS__'']) ''account''
     = Some (JString ''__HOSTED_ACCOUNTS__'')
   \<and> includeHostedAccounts (getQueryVariables (\<lambda>_. ((), ())) (\<lambda>_. ()) ''jane''
        (janeRouter [''account'' \<mapsto> JString ''__HOSTED_ACCOUNTS__''])) = Some True
   \<and> includeChildrenAccounts (getQueryVariables (\<lambda>_. ((), ())) (\<lambda>_. ()) ''jane''
        (janeRouter [''account'' \<mapsto> JString ''__HOSTED_ACCOUNTS__''])) = None
   \<and> excludeParentAccount (getQueryVariables (\<lambda>_. ((), ())) (\<lambda>_. ()) ''jane''
        (janeRouter [''account'' \<mapsto> JString ''__HOSTED_ACCOUNTS__''])) = None
   \<and> account (getQueryVariables (\<lambda>_. ((), ())) (\<lambda>_. ()) ''jane''
        (janeRouter [''account'' \<mapsto> JString ''__HOSTED_ACCOUNTS__''])) = OneAccount \<lparr>slug = ''jane''\<rparr>"
proof -
  have h: "query (janeRouter [''account'' \<mapsto> JString ''__HOSTED_ACCOUNTS__'']) ''account''
             = Some (JString ''__HOSTED_ACCOUNTS__'')"
    by (simp add: query_janeRouter)
  from hosted_accounts_sentinel [OF h] h show ?thesis by blast
qed

text \<open>
  C6: when the \<open>account\<close> parameter is a non-empty string other than the two sentinels,
  the string is the comma-separated form of a non-empty list of comma-free slugs; for
  every such list, the \<open>account\<close> variable is the list of the objects \<open>{ slug }\<close> of its
  slugs, in the same order. \<open>includeChildrenAccounts\<close> is true, and the two other flags
  stay undefined.
\<close>

theorem slug_list_selects_accounts:
  assumes "query rtr ''account'' = Some (JString s)"
    and "s \<noteq> []" and "s \<noteq> ''__CHILDREN_ACCOUNTS__''" and "s \<noteq> ''__HOSTED_ACCOUNTS__''"
  shows "(\<exists>slugs. slugs \<noteq> [] \<and> (\<forall>x\<in>set slugs. CHR '','' \<notin> set x) \<and> commaSeparated slugs = s)
   \<and> (\<forall>slugs. slugs \<noteq> [] \<and> (\<forall>x\<in>set slugs. CHR '','' \<notin> set x) \<and> commaSeparated slugs = s \<longrightarrow>
         account (getQueryVariables pdi gat accSlug rtr)
           = AccountList (map (\<lambda>sl. \<lparr>slug = sl\<rparr>) slugs))
   \<and> includeChildrenAccounts (getQueryVariables pdi gat accSlug rtr) = Some True
   \<and> includeHostedAccounts (getQueryVariables pdi gat accSlug rtr) = None
   \<and> excludeParentAccount (getQueryVariables pdi gat accSlug rtr) = None"
proof -
  have ex: "\<exists>slugs. slugs \<noteq> [] \<and> (\<forall>x\<in>set slugs. CHR '','' \<notin> set x) \<and> commaSeparated slugs = s"
    using split_not_Nil [of s "CHR '',''"] split_pieces [of _ s "CHR '',''"]
      commaSeparated_split [of s]
    by blast
  have acc: "account (getQueryVariables pdi gat accSlug rtr)
      = AccountList (map (\<lambda>sl. \<lparr>slug = sl\<rparr>) (split s (CHR '','')))"
    using assms by (simp add: account_variable)
  have all: "account (getQueryVariables pdi gat accSlug rtr)
      = AccountList (map (\<lambda>sl. \<lparr>slug = sl\<rparr>) slugs)"
    if "slugs \<noteq> []" and "\<forall>x\<in>set slugs. CHR '','' \<notin> set x" and "commaSeparated slugs = s"
    for slugs
    using acc split_commaSeparated [OF that(1,2)] that(3) by simp
  have flags: "includeChildrenAccounts (getQueryVariables pdi gat accSlug rtr) = Some True"
    "includeHostedAccounts (getQueryVariables pdi gat accSlug rtr) = None"
    "excludeParentAccount (getQueryVariables pdi gat accSlug rtr) = None"
    using assms by (simp_all add: account_flags)
  from ex all flags show ?thesis by blast
qed

text \<open>The parameter \<open>a,b,c\<close>.\<close>

theorem slug_list_selects_accounts_witness:
  "query (janeRouter [''account'' \<mapsto> JString ''a,b,c'']) ''account'' = Some (JString ''a,b,c'')
   \<and> ''a,b,c'' \<noteq> [] \<and> ''a,b,c'' \<noteq> ''__CHILDREN_ACCOUNTS__'' \<and> ''a,b,c'' \<noteq> ''__HOSTED_ACCOUNTS__''
   \<and> commaSeparated [''a'', ''b'', ''c''] = ''a,b,c''
   \<and> account (getQueryVariables (\<lambda>_. ((), ())) (\<lambda>_. ()) ''jane''
        (janeRouter [''account'' \<mapsto> JString ''a,b,c'']))
       = AccountList [\<lparr>slug = ''a''\<rparr>, \<lparr>slug = ''b''\<rparr>, \<lparr>slug = ''c''\<rparr>]
   \<and> includeChildrenAccounts (getQueryVariables (\<lambda>_. ((), ())) (\<lambda>_. ()) ''jane''
        (janeRouter [''account'' \<mapsto> JString ''a,b,c''])) = Some True
   \<and> includeHostedAccounts (getQueryVariables (\<lambda>_. ((), ())) (\<lambda>_. ()) ''jane''
        (janeRouter [''account'' \<mapsto> JString ''a,b,c''])) = None
   \<and> excludeParentAccount (getQueryVariables (\<lambda>_. ((), ())) (\<lambda>_. ()) ''jane''
        (janeRouter [''account'' \<mapsto> JString ''a,b,c''])) = None"
proof -
  let ?vars = "getQueryVariables (\<lambda>_. ((), ())) (\<lambda>_. ()) ''jane''
                 (janeRouter [''account'' \<mapsto> JString ''a,b,c''])"
  have h: "query (janeRouter [''account'' \<mapsto> JString ''a,b,c'']) ''account'' = Some (JString ''a,b,c'')"
    by (simp add: query_janeRouter)
  have n: "''a,b,c'' \<noteq> []" "''a,b,c'' \<noteq> ''__CHILDREN_ACCOUNTS__''" "''a,b,c'' \<noteq> ''__HOSTED_ACCOUNTS__''"
    by simp_all
  have j: "[''a'', ''b'', ''c''] \<noteq> [] \<and> (\<forall>x\<in>set [''a'', ''b'', ''c'']. CHR '','' \<notin> set x)
           \<and> commaSeparated [''a'', ''b'', ''c''] = ''a,b,c''"
    by simp
  from slug_list_selects_accounts [OF h n, where pdi = "\<lambda>_. ((), ())" and gat = "\<lambda>_. ()"
      and accSlug = "''jane''"]
  have all: "\<forall>slugs. slugs \<noteq> [] \<and> (\<forall>x\<in>set slugs. CHR '','' \<notin> set x) \<and> commaSeparated slugs = ''a,b,c'' \<longrightarrow>
         account ?vars = AccountList (map (\<lambda>sl. \<lparr>slug = sl\<rparr>) slugs)"
    and flags: "includeChildrenAccounts ?vars = Some True" "includeHostedAccounts ?vars = None"
      "excludeParentAccount ?vars = None"
    by blast+
  from all j have "account ?vars = AccountList (map (\<lambda>sl. \<lparr>slug = sl\<rparr>) [''a'', ''b'', ''c''])"
    by blast
  then have "account ?vars = AccountList [\<lparr>slug = ''a''\<rparr>, \<lparr>slug = ''b''\<rparr>, \<lparr>slug = ''c''\<rparr>]"
    by simp
  with h n j flags show ?thesis by blast
qed

text \<open>
  C10: two routers whose queries agree on every key other than \<open>slug\<close> and \<open>section\<close>
  give the same variables, for every account slug.
\<close>

theorem slug_and_section_ignored:
  assumes "\<forall>key. key \<notin> {''slug'', ''section''} \<longrightarrow> query r1 key = query r2 key"
  shows "getQueryVariables pdi gat accSlug r1 = getQueryVariables pdi gat accSlug r2"
proof -
  have "routerQuery r1 = routerQuery r2"
    using assms by (auto simp: omit_def fun_eq_iff)
  then show ?thesis
    by (simp add: getQueryVariables_def)
qed

text \<open>A router with \<open>slug\<close> and \<open>section\<close>, and one with another \<open>slug\<close> and no \<open>section\<close>.\<close>

theorem slug_and_section_ignored_witness:
  "getQueryVariables (\<lambda>_. ((), ())) (\<lambda>_. ()) ''jane'' (janeRouter [''offset'' \<mapsto> JString ''20''])
     = getQueryVariables (\<lambda>_. ((), ())) (\<lambda>_. ()) ''jane''
         \<lparr>query = [''offset'' \<mapsto> JString ''20'', ''slug'' \<mapsto> JString ''joe''], asPath = ''/joe''\<rparr>"
proof -
  have h: "\<forall>key. key \<notin> {''slug'', ''section''} \<longrightarrow>
      query (janeRouter [''offset'' \<mapsto> JString ''20'']) key
        = query \<lparr>query = [''offset'' \<mapsto> JString ''20'', ''slug'' \<mapsto> JString ''joe''],
                 asPath = ''/joe''\<rparr> key"
    by (simp add: query_janeRouter)
  from slug_and_section_ignored [OF h] show ?thesis .
qed

subsection \<open>What a render shows\<close>

lemma ActivityLog_body:
  "body (fst (ActivityLog isSupported rtr res)) =
     (case error res of
        Some e \<Rightarrow> MessageBoxGraphqlError e
      | None \<Rightarrow>
          if loading res then LoadingPlaceholder
          else (case nodesOf (data res) of
                  None \<Rightarrow> MustBeAdminMessage
                | Some ns \<Rightarrow>
                    (case totalCountOf (data res) of
                       None \<Rightarrow> NoActivityYetMessage
                     | Some n \<Rightarrow>
                         if n = 0 then NoActivityYetMessage
                         else ActivityLogContainer ns)))"
  by (simp add: ActivityLog_def Let_def)

lemma ActivityLog_pagination:
  "pagination (fst (ActivityLog isSupported rtr res)) =
     (case totalCountOf (data res) of
        None \<Rightarrow> None
      | Some n \<Rightarrow>
          if n > 10
            then Some \<lparr>pageOffset = orZero (parseInt (routerQuery rtr ''offset'')),
                       pageTotal = n, pageLimit = 10,
                       ignoredQueryParams = [''slug'', ''section'']\<rparr>
            else None)"
  by (simp add: ActivityLog_def Let_def ACTIVITY_LIMIT_def split: option.splits)

lemma loadedResult_simps:
  "error (loadedResult count ns) = None"
  "\<not> loading (loadedResult count ns)"
  "totalCountOf (data (loadedResult count ns)) = count"
  "nodesOf (data (loadedResult count ns)) = ns"
  by (simp_all add: loadedResult_def totalCountOf_def nodesOf_def activitiesOf_def)

text \<open>
  C7: every derived query has \<open>limit = 10\<close>. The pagination control is rendered exactly
  when the result has a \<open>totalCount\<close> above 10, and then with that total and the limit
  10: with 3 pages for a total of 25, and not at all for a total of 5 or of 10.
\<close>

theorem page_size_and_pagination:
  "limit (getQueryVariables pdi gat accSlug rtr) = 10
   \<and> (pagination (fst (ActivityLog isSupported rtr res)) \<noteq> None)
       = (\<exists>n. totalCountOf (data res) = Some n \<and> 10 < n)
   \<and> (\<forall>n. totalCountOf (data res) = Some n \<and> 10 < n \<longrightarrow>
        (\<exists>p. pagination (fst (ActivityLog isSupported rtr res)) = Some p
           \<and> pageTotal p = n \<and> pageLimit p = 10))
   \<and> (totalCountOf (data res) = Some 25 \<longrightarrow>
        (\<exists>p. pagination (fst (ActivityLog isSupported rtr res)) = Some p \<and> totalPages p = 3))
   \<and> (totalCountOf (data res) = Some 5 \<longrightarrow>
        pagination (fst (ActivityLog isSupported rtr res)) = None)
   \<and> (totalCountOf (data res) = Some 10 \<longrightarrow>
        pagination (fst (ActivityLog isSupported rtr res)) = None)"
proof -
  have l: "limit (getQueryVariables pdi gat accSlug rtr) = 10"
    by (simp add: getQueryVariables_def Let_def ACTIVITY_LIMIT_def split: prod.splits)
  show ?thesis
    unfolding ActivityLog_pagination l
    by (cases "totalCountOf (data res)") (simp_all add: totalPages_def)
qed

text \<open>Results with 25, 5 and 10 activities in total.\<close>

theorem page_size_and_pagination_witness:
  "totalCountOf (data (loadedResult (Some 25) (Some [1, 2, 3]))) = Some 25
   \<and> (\<exists>p. pagination (fst (ActivityLog (\<lambda>_ _. True) (janeRouter Map.empty)
              (loadedResult (Some 25) (Some [1, 2, 3])))) = Some p
          \<and> pageTotal p = 25 \<and> pageLimit p = 10 \<and> totalPages p = 3)
   \<and> totalCountOf (data (loadedResult (Some 5) (Some [1, 2, 3]))) = Some 5
   \<and> pagination (fst (ActivityLog (\<lambda>_ _. True) (janeRouter Map.empty)
        (loadedResult (Some 5) (Some [1, 2, 3])))) = None
   \<and> totalCountOf (data (loadedResult (Some 10) (Some [1, 2, 3]))) = Some 10
   \<and> pagination (fst (ActivityLog (\<lambda>_ _. True) (janeRouter Map.empty)
        (loadedResult (Some 10) (Some [1, 2, 3])))) = None"
proof -
  note inst = page_size_and_pagination [where isSupported = "\<lambda>_ _. True" and rtr = "janeRouter Map.empty"
      and pdi = "\<lambda>_. ((), ())" and gat = "\<lambda>_. ()" and accSlug = "''jane''"]
  have c: "totalCountOf (data (loadedResult (Some 25) (Some [1, 2, 3]))) = Some 25"
    "totalCountOf (data (loadedResult (Some 5) (Some [1, 2, 3]))) = Some 5"
    "totalCountOf (data (loadedResult (Some 10) (Some [1, 2, 3]))) = Some 10"
    by (simp_all add: loadedResult_simps)
  from inst [where res = "loadedResult (Some 25) (Some [1, 2, 3])"] c(1)
  obtain p where p: "pagination (fst (ActivityLog (\<lambda>_ _. True) (janeRouter Map.empty)
              (loadedResult (Some 25) (Some [1, 2, 3])))) = Some p" "totalPages p = 3"
    by blast
  from inst [where res = "loadedResult (Some 25) (Some [1, 2, 3])"] c(1)
  obtain p' where p': "pagination (fst (ActivityLog (\<lambda>_ _. True) (janeRouter Map.empty)
              (loadedResult (Some 25) (Some [1, 2, 3])))) = Some p'"
      "pageTotal p' = 25" "pageLimit p' = 10"
    by force
  from p p' have a: "\<exists>p. pagination (fst (ActivityLog (\<lambda>_ _. True) (janeRouter Map.empty)
              (loadedResult (Some 25) (Some [1, 2, 3])))) = Some p
          \<and> pageTotal p = 25 \<and> pageLimit p = 10 \<and> totalPages p = 3"
    by simp
  from inst [where res = "loadedResult (Some 5) (Some [1, 2, 3])"] c(2)
  have b: "pagination (fst (ActivityLog (\<lambda>_ _. True) (janeRouter Map.empty)
        (loadedResult (Some 5) (Some [1, 2, 3])))) = None"
    by blast
  from inst [where res = "loadedResult (Some 10) (Some [1, 2, 3])"] c(3)
  have d: "pagination (fst (ActivityLog (\<lambda>_ _. True) (janeRouter Map.empty)
        (loadedResult (Some 10) (Some [1, 2, 3])))) = None"
    by blast
  from a b c d show ?thesis by blast
qed

text \<open>
  C8: a render shows, in this order of precedence: the GraphQL error box when the query
  has an error; else the loading placeholder while it loads; else the message that one
  must be an admin when the result has no activities, or no nodes; else the message that
  there is no activity yet when \<open>totalCount\<close> is 0 (or null); else the list of the nodes.
  In no case does the render call the refetch of the query.
\<close>

theorem rendered_outcome:
  "(\<forall>e. error res = Some e \<longrightarrow>
       body (fst (ActivityLog isSupported rtr res)) = MessageBoxGraphqlError e)
   \<and> (error res = None \<and> loading res \<longrightarrow>
       body (fst (ActivityLog isSupported rtr res)) = LoadingPlaceholder)
   \<and> (error res = None \<and> \<not> loading res \<and> nodesOf (data res) = None \<longrightarrow>
       body (fst (ActivityLog isSupported rtr res)) = MustBeAdminMessage)
   \<and> (error res = None \<and> \<not> loading res \<and> activitiesOf (data res) = None \<longrightarrow>
       body (fst (ActivityLog isSupported rtr res)) = MustBeAdminMessage)
   \<and> (\<forall>ns. error res = None \<and> \<not> loading res \<and> nodesOf (data res) = Some ns
          \<and> (totalCountOf (data res) = Some 0 \<or> totalCountOf (data res) = None) \<longrightarrow>
       body (fst (ActivityLog isSupported rtr res)) = NoActivityYetMessage)
   \<and> (\<forall>ns n. error res = None \<and> \<not> loading res \<and> nodesOf (data res) = Some ns
          \<and> totalCountOf (data res) = Some n \<and> n \<noteq> 0 \<longrightarrow>
       body (fst (ActivityLog isSupported rtr res)) = ActivityLogContainer ns)
   \<and> QueryRefetch \<notin> set (snd (ActivityLog isSupported rtr res))"
  unfolding ActivityLog_body ActivityLog_effects
  by (auto simp: nodesOf_def split: option.splits)

text \<open>
  A failed query, a loading one, a result without activities, an empty result and a
  result of three activities.
\<close>

theorem rendered_outcome_witness:
  "body (fst (ActivityLog (\<lambda>_ _. True) (janeRouter Map.empty)
      (\<lparr>data = None, loading = True, error = Some ''Network error''\<rparr> :: (nat, string) queryResult)))
     = MessageBoxGraphqlError ''Network error''
   \<and> body (fst (ActivityLog (\<lambda>_ _. True) (janeRouter Map.empty) loadingResult))
     = LoadingPlaceholder
   \<and> body (fst (ActivityLog (\<lambda>_ _. True) (janeRouter Map.empty)
      (\<lparr>data = Some \<lparr>dataAccount = Some individualAccount, activities = None\<rparr>,
        loading = False, error = None\<rparr> :: (nat, string) queryResult)))
     = MustBeAdminMessage
   \<and> body (fst (ActivityLog (\<lambda>_ _. True) (janeRouter Map.empty) (loadedResult (Some 0) (Some []))))
     = NoActivityYetMessage
   \<and> body (fst (ActivityLog (\<lambda>_ _. True) (janeRouter Map.empty)
      (loadedResult (Some 3) (Some [1, 2, 3]))))
     = ActivityLogContainer [1, 2, 3]
   \<and> QueryRefetch \<notin> set (snd (ActivityLog (\<lambda>_ _. True) (janeRouter Map.empty)
      (loadedResult (Some 3) (Some [1, 2, 3]))))"
proof -
  let ?failed = "\<lparr>data = None, loading = True, error = Some ''Network error''\<rparr>
                   :: (nat, string) queryResult"
  let ?denied = "\<lparr>data = Some \<lparr>dataAccount = Some individualAccount, activities = None\<rparr>,
                  loading = False, error = None\<rparr> :: (nat, string) queryResult"
  note inst = rendered_outcome [where isSupported = "\<lambda>_ _. True" and rtr = "janeRouter Map.empty"]
  have e: "error ?failed = Some ''Network error''"
    by simp
  have l: "error loadingResult = None \<and> loading loadingResult"
    by (simp add: loadingResult_def)
  have d: "error ?denied = None \<and> \<not> loading ?denied \<and> activitiesOf (data ?denied) = None"
    by (simp add: activitiesOf_def)
  have z: "error (loadedResult (Some 0) (Some [])) = None
           \<and> \<not> loading (loadedResult (Some 0) (Some []))
           \<and> nodesOf (data (loadedResult (Some 0) (Some []))) = Some []
           \<and> (totalCountOf (data (loadedResult (Some 0) (Some []))) = Some 0
              \<or> totalCountOf (data (loadedResult (Some 0) (Some []))) = None)"
    by (simp add: loadedResult_simps)
  have t: "error (loadedResult (Some 3) (Some [1, 2, 3])) = None
           \<and> \<not> loading (loadedResult (Some 3) (Some [1, 2, 3]))
           \<and> nodesOf (data (loadedResult (Some 3) (Some [1, 2, 3]))) = Some [1, 2, 3]
           \<and> totalCountOf (data (loadedResult (Some 3) (Some [1, 2, 3]))) = Some 3 \<and> (3::int) \<noteq> 0"
    by (simp add: loadedResult_simps)
  from inst [where res = ?failed] e
  have 1: "body (fst (ActivityLog (\<lambda>_ _. True) (janeRouter Map.empty) ?failed))
             = MessageBoxGraphqlError ''Network error''"
    by blast
  from inst [where res = loadingResult] l
  have 2: "body (fst (ActivityLog (\<lambda>_ _. True) (janeRouter Map.empty) loadingResult))
             = LoadingPlaceholder"
    by blast
  from inst [where res = ?denied] d
  have 3: "body (fst (ActivityLog (\<lambda>_ _. True) (janeRouter Map.empty) ?denied))
             = MustBeAdminMessage"
    by blast
  from inst [where res = "loadedResult (Some 0) (Some [])"] z
  have 4: "body (fst (ActivityLog (\<lambda>_ _. True) (janeRouter Map.empty)
             (loadedResult (Some 0) (Some [])))) = NoActivityYetMessage"
    by blast
  from inst [where res = "loadedResult (Some 3) (Some [1, 2, 3])"] t
  have 5: "body (fst (ActivityLog (\<lambda>_ _. True) (janeRouter Map.empty)
             (loadedResult (Some 3) (Some [1, 2, 3])))) = ActivityLogContainer [1, 2, 3]"
    and 6: "QueryRefetch \<notin> set (snd (ActivityLog (\<lambda>_ _. True) (janeRouter Map.empty)
             (loadedResult (Some 3) (Some [1, 2, 3]))))"
    by blast+
  from 1 2 3 4 5 6 show ?thesis by blast
qed

end
